theory Spec2Isabelle
  imports Complex_Main
begin

section \<open>Talking to the device\<close>

text \<open>
  The client (\<^verbatim>\<open>prueba.py\<close>) is a Streamlit script that talks to the device over HTTP with
  \<^verbatim>\<open>requests\<close>. Every helper has the same three lines:
  \<^verbatim>\<open>r = requests.get/post(...); r.raise_for_status(); return r.json()\<close>.
  An exception is a value of type \<open>exn\<close>; a helper returns \<open>exn + 'a\<close>.
  \<open>TzLocalizeError\<close> stands for the two exceptions of \<^verbatim>\<open>tz_localize\<close>, for a local time
  that does not exist and for one that is ambiguous.

  Python floats are modelled as \<open>real\<close> (exact arithmetic, no rounding), Python ints
  as \<open>int\<close>.
\<close>

datatype exn =
    ConnectionError
  | Timeout
  | HTTPError nat
  | JSONDecodeError
  | KeyError string
  | OutOfBoundsDatetime
  | TzLocalizeError

text \<open>
  What one HTTP exchange with the device gives: no connection, no answer within the
  timeout, or a response with a status code and a body that parses as JSON (\<open>Some\<close>)
  or does not (\<open>None\<close>).
\<close>

datatype 'a reply = Unreachable | TimedOut | Reply nat "'a option"

definition raise_for_status :: "nat \<Rightarrow> exn + unit" where
  "raise_for_status status_code =
     (if 400 \<le> status_code \<and> status_code < 600 then Inl (HTTPError status_code) else Inr ())"

definition response_json :: "'a reply \<Rightarrow> exn + 'a" where
  "response_json r =
     (case r of
        Unreachable \<Rightarrow> Inl ConnectionError
      | TimedOut \<Rightarrow> Inl Timeout
      | Reply status_code body \<Rightarrow>
          (case raise_for_status status_code of
             Inl e \<Rightarrow> Inl e
           | Inr _ \<Rightarrow> (case body of None \<Rightarrow> Inl JSONDecodeError | Some j \<Rightarrow> Inr j)))"

subsection \<open>Start mission\<close>




text \<open>\<^verbatim>\<open>computed_interval = distance / velocity\<close>\<close>

definition computed_interval :: "real \<Rightarrow> real \<Rightarrow> real" where
  "computed_interval velocity distance = distance / velocity"

text \<open>What the form shows: the computed interval and, after a click on Start, a success
  with the device's answer or an error with the exception.\<close>

datatype 'a banner = Success 'a | Failure exn




subsection \<open>Stop mission\<close>

text \<open>
  \<^verbatim>\<open>stop_mission()\<close> posts to \<^verbatim>\<open>/stop\<close> with no body. The device has a state of its own
  (type \<open>'d\<close>), which the request may change; the client keeps none.
\<close>

definition stop_mission :: "('d \<Rightarrow> 'a reply \<times> 'd) \<Rightarrow> 'd \<Rightarrow> (exn + 'a) \<times> 'd" where
  "stop_mission device s = (case device s of (r, s') \<Rightarrow> (response_json r, s'))"

text \<open>The handler of the Stop button.\<close>

definition stop_button :: "('d \<Rightarrow> 'a reply \<times> 'd) \<Rightarrow> 'd \<Rightarrow> 'a banner \<times> 'd" where
  "stop_button device s =
     (case stop_mission device s of
        (Inr resp, s') \<Rightarrow> (Success resp, s')
      | (Inl e, s') \<Rightarrow> (Failure e, s'))"

text \<open>A device whose stop endpoint always acknowledges, whatever its state.\<close>

datatype mission_state = Idle | Armed | Running

definition acking_device :: "mission_state \<Rightarrow> string reply \<times> mission_state" where
  "acking_device s = (Reply 200 (Some ''stopped''), Idle)"

section \<open>Telemetry records and data frames\<close>

text \<open>
  A cell of a record fetched from \<^verbatim>\<open>/log.json\<close>: the key is not in the JSON object
  (\<open>Absent\<close>), it is there with \<^verbatim>\<open>null\<close> or NaN (\<open>Null\<close>), or it has a value. In a
  pandas frame \<open>Absent\<close> and \<open>Null\<close> are both NaN (NaT in a datetime column).
\<close>

datatype 'a cell = Absent | Null | Val 'a

text \<open>
  One row. The first eight fields are the keys the device sends, \<open>ts\<close> in whole seconds
  since the epoch (UTC); \<open>dt\<close> is the column the script adds (nanoseconds since the epoch,
  the resolution of \<^verbatim>\<open>pd.Timestamp\<close>), \<open>Absent\<close> in a record as fetched.
\<close>

record row =
  ts :: "int cell"
  lat :: "real cell"
  lon :: "real cell"
  alt :: "real cell"
  drop_id :: "int cell"
  speed_mps :: "real cell"
  sats :: "int cell"
  fix_ok :: "bool cell"
  dt :: "int cell"

text \<open>A \<^verbatim>\<open>pd.DataFrame\<close>: its column labels and its rows.\<close>

record frame =
  columns :: "string list"
  rows :: "row list"

definition isna :: "'a cell \<Rightarrow> bool" where
  "isna c = (case c of Val _ \<Rightarrow> False | _ \<Rightarrow> True)"

definition has_key :: "(row \<Rightarrow> 'a cell) \<Rightarrow> row list \<Rightarrow> bool" where
  "has_key field data = list_ex (\<lambda>r. field r \<noteq> Absent) data"

text \<open>
  \<^verbatim>\<open>pd.DataFrame(data)\<close> on a list of JSON objects: a column for every key that some
  object has (listed here in the order of the device's schema), one row per object.
\<close>

definition DataFrame :: "row list \<Rightarrow> frame" where
  "DataFrame data =
     \<lparr>columns =
        (if has_key ts data then [''ts''] else []) @
        (if has_key lat data then [''lat''] else []) @
        (if has_key lon data then [''lon''] else []) @
        (if has_key alt data then [''alt''] else []) @
        (if has_key drop_id data then [''drop_id''] else []) @
        (if has_key speed_mps data then [''speed_mps''] else []) @
        (if has_key sats data then [''sats''] else []) @
        (if has_key fix_ok data then [''fix_ok''] else []),
      rows = data\<rparr>"

text \<open>\<^verbatim>\<open>pd.DataFrame(columns=[...])\<close>: no rows.\<close>

definition DataFrame_columns :: "string list \<Rightarrow> frame" where
  "DataFrame_columns cs = \<lparr>columns = cs, rows = []\<rparr>"

definition fetched_columns :: "string list" where
  "fetched_columns =
     [''ts'', ''lat'', ''lon'', ''alt'', ''drop_id'', ''speed_mps'', ''sats'', ''fix_ok'']"

definition fallback_columns :: "string list" where
  "fallback_columns =
     [''ts'', ''lat'', ''lon'', ''alt'', ''drop_id'', ''speed_mps'', ''sats'', ''fix_ok'', ''dt'']"

text \<open>\<^verbatim>\<open>df.empty\<close>: an axis of length 0. \<^verbatim>\<open>len(df)\<close>: the number of rows.\<close>

definition empty_df :: "frame \<Rightarrow> bool" where
  "empty_df df = (rows df = [] \<or> columns df = [])"

definition len :: "frame \<Rightarrow> nat" where
  "len df = length (rows df)"

text \<open>\<^verbatim>\<open>df[label] = ...\<close> adds the label unless the frame has it.\<close>

definition add_column :: "string \<Rightarrow> string list \<Rightarrow> string list" where
  "add_column c cs = (if c \<in> set cs then cs else cs @ [c])"

section \<open>The day window\<close>

text \<open>
  A \<^verbatim>\<open>datetime.date\<close> is its number of days since 1970-01-01. A naive timestamp is the
  number of nanoseconds of wall-clock time since 1970-01-01 00:00:00; a timezone-aware
  one is an instant, in nanoseconds since the epoch (aware timestamps compare by
  instant).
\<close>

type_synonym date = int

text \<open>
  The time zone, \<^verbatim>\<open>"America/Mexico_City"\<close> in the script, is a table of the zone database:
  for a naive wall-clock time it gives the UTC offset in seconds, or \<open>None\<close> where
  \<^verbatim>\<open>tz_localize\<close> raises (a wall-clock time that does not exist or is ambiguous).
\<close>

type_synonym tzinfo = "int \<Rightarrow> int option"

text \<open>Central Standard Time all year, the zone's rule since 2022-10-30: UTC-6.\<close>

definition mexico_city_cst :: tzinfo where
  "mexico_city_cst naive = Some (- 21600)"

definition tz_localize :: "tzinfo \<Rightarrow> int \<Rightarrow> exn + int" where
  "tz_localize zone naive =
     (case zone naive of
        None \<Rightarrow> Inl TzLocalizeError
      | Some utcoffset \<Rightarrow> Inr (naive - utcoffset * 10 ^ 9))"

text \<open>
  \<^verbatim>\<open>pd.Timestamp.combine(day, datetime.min.time())\<close> is 00:00:00 of the day and
  \<^verbatim>\<open>pd.Timestamp.combine(day, datetime.max.time())\<close> is 23:59:59.999999.
\<close>

definition combine_min :: "date \<Rightarrow> int" where
  "combine_min day = day * 86400 * 10 ^ 9"

definition combine_max :: "date \<Rightarrow> int" where
  "combine_max day = day * 86400 * 10 ^ 9 + 86399999999000"

text \<open>
  \<^verbatim>\<open>pd.to_datetime(ts, unit="s", utc=True)\<close> of one cell: NaN gives NaT, a number of
  seconds gives the instant, and one that does not fit the 64-bit nanosecond range raises.
  \<^verbatim>\<open>tz_convert\<close> changes the zone a timestamp is shown in, not the instant.
\<close>

definition in_datetime_range :: "int \<Rightarrow> bool" where
  "in_datetime_range t = (- (2 ^ 63) < t * 10 ^ 9 \<and> t * 10 ^ 9 < 2 ^ 63)"

definition to_datetime_cell :: "int cell \<Rightarrow> int cell" where
  "to_datetime_cell c = (case c of Val t \<Rightarrow> Val (t * 10 ^ 9) | _ \<Rightarrow> Null)"

definition out_of_range_cell :: "int cell \<Rightarrow> bool" where
  "out_of_range_cell c = (case c of Val t \<Rightarrow> \<not> in_datetime_range t | _ \<Rightarrow> False)"

text \<open>
  \<^verbatim>\<open>df_all["dt"] = pd.to_datetime(df_all["ts"], unit="s", utc=True).dt.tz_convert(...)\<close>
\<close>

definition assign_dt :: "frame \<Rightarrow> exn + frame" where
  "assign_dt df =
     (if ''ts'' \<notin> set (columns df) then Inl (KeyError ''ts'')
      else if list_ex (\<lambda>r. out_of_range_cell (ts r)) (rows df) then Inl OutOfBoundsDatetime
      else Inr \<lparr>columns = add_column ''dt'' (columns df),
                rows = map (\<lambda>r. r\<lparr>dt := to_datetime_cell (ts r)\<rparr>) (rows df)\<rparr>)"

text \<open>
  \<^verbatim>\<open>mask = (df_all["dt"] >= day_start) & (df_all["dt"] <= day_end)\<close>, for one row; a
  comparison with NaT is false.
\<close>

definition day_mask :: "int \<Rightarrow> int \<Rightarrow> row \<Rightarrow> bool" where
  "day_mask day_start day_end r =
     (case dt r of Val t \<Rightarrow> day_start \<le> t \<and> t \<le> day_end | _ \<Rightarrow> False)"

text \<open>
  The body of the \<^verbatim>\<open>try\<close> from \<^verbatim>\<open>if not df_all.empty\<close> on: the value of \<^verbatim>\<open>df_day\<close>, or the
  exception raised on the way.
\<close>

definition select_day :: "tzinfo \<Rightarrow> date \<Rightarrow> frame \<Rightarrow> exn + frame" where
  "select_day zone day df_all =
     (if \<not> empty_df df_all then
        (case assign_dt df_all of Inl e \<Rightarrow> Inl e | Inr df \<Rightarrow>
        (case tz_localize zone (combine_min day) of Inl e \<Rightarrow> Inl e | Inr day_start \<Rightarrow>
        (case tz_localize zone (combine_max day) of Inl e \<Rightarrow> Inl e | Inr day_end \<Rightarrow>
           Inr \<lparr>columns = columns df, rows = filter (day_mask day_start day_end) (rows df)\<rparr>)))
      else Inr df_all)"

text \<open>
  \<^verbatim>\<open>fetch_json(last)\<close>: the device answers \<^verbatim>\<open>GET /log.json?last=N\<close>.
\<close>

definition fetch_json :: "(nat \<Rightarrow> row list reply) \<Rightarrow> nat \<Rightarrow> exn + row list" where
  "fetch_json device last_n = response_json (device last_n)"

text \<open>
  The daily view, \<^verbatim>\<open>try: ... except Exception as e: ...\<close>. \<open>df_all\<close> is \<open>None\<close> when the
  name was never bound (the fetch itself raised); \<open>warning\<close> is the exception that
  \<^verbatim>\<open>status.warning\<close> reports. Only \<^verbatim>\<open>len(df_all)\<close> is read afterwards.
\<close>

record daily =
  df_day :: frame
  df_all :: "frame option"
  warning :: "exn option"

definition daily_view :: "tzinfo \<Rightarrow> date \<Rightarrow> exn + row list \<Rightarrow> daily" where
  "daily_view zone day fetched =
     (case fetched of
        Inl e \<Rightarrow>
          \<lparr>df_day = DataFrame_columns fallback_columns, df_all = None, warning = Some e\<rparr>
      | Inr data \<Rightarrow>
          (let all_rows = (if data \<noteq> [] then DataFrame data
                           else DataFrame_columns fetched_columns)
           in case select_day zone day all_rows of
                Inl e \<Rightarrow>
                  \<lparr>df_day = DataFrame_columns fallback_columns, df_all = Some all_rows,
                   warning = Some e\<rparr>
              | Inr d \<Rightarrow> \<lparr>df_day = d, df_all = Some all_rows, warning = None\<rparr>))"

definition daily_page :: "tzinfo \<Rightarrow> date \<Rightarrow> nat \<Rightarrow> (nat \<Rightarrow> row list reply) \<Rightarrow> daily" where
  "daily_page zone day previewN device =
     daily_view zone day (fetch_json device (max previewN 400))"

section \<open>Stats and map\<close>

text \<open>\<^verbatim>\<open>int(df_day["fix_ok"].sum())\<close>: \<^verbatim>\<open>True\<close> counts 1, \<^verbatim>\<open>False\<close> 0, NaN is skipped.\<close>

definition fix_ok_sum :: "row list \<Rightarrow> int" where
  "fix_ok_sum rs = sum_list (map (\<lambda>r. case fix_ok r of Val True \<Rightarrow> 1 | _ \<Rightarrow> 0) rs)"

text \<open>
  \<^verbatim>\<open>Series.mean()\<close>: the mean of the cells that are not NaN; NaN (\<open>None\<close>) when there
  is none.
\<close>

definition notna_values :: "'a cell list \<Rightarrow> 'a list" where
  "notna_values cs = concat (map (\<lambda>c. case c of Val v \<Rightarrow> [v] | _ \<Rightarrow> []) cs)"

definition mean :: "real cell list \<Rightarrow> real option" where
  "mean cs =
     (let vs = notna_values cs
      in if vs = [] then None else Some (sum_list vs / real (length vs)))"

text \<open>\<^verbatim>\<open>Series.notna().any()\<close>\<close>

definition notna_any :: "'a cell list \<Rightarrow> bool" where
  "notna_any cs = list_ex (\<lambda>c. \<not> isna c) cs"

text \<open>
  The fourth metric shows the mean speed (NaN when no row has a speed) or a dash.
\<close>

datatype speed_metric = Dash | Avg "real option"

record metrics =
  rows_selected_day :: nat
  total_fetched_rows :: nat
  valid_gps_rows :: int
  avg_speed :: speed_metric

definition stats :: "daily \<Rightarrow> metrics" where
  "stats v =
     \<lparr>rows_selected_day = len (df_day v),
      total_fetched_rows = (case df_all v of Some a \<Rightarrow> len a | None \<Rightarrow> 0),
      valid_gps_rows =
        (if \<not> empty_df (df_day v) \<and> ''fix_ok'' \<in> set (columns (df_day v))
         then fix_ok_sum (rows (df_day v)) else 0),
      avg_speed =
        (if \<not> empty_df (df_day v) \<and> ''speed_mps'' \<in> set (columns (df_day v))
         then Avg (mean (map speed_mps (rows (df_day v)))) else Dash)\<rparr>"

text \<open>
  \<^verbatim>\<open>lat0 = float(df_day["lat"].mean()) if df_day["lat"].notna().any() else 0.0\<close>, and the
  same for \<^verbatim>\<open>lon0\<close>. \<^verbatim>\<open>df_day[label]\<close> raises \<^verbatim>\<open>KeyError\<close> for a label the frame has not.
  The float is a number (\<open>Some\<close>) or NaN (\<open>None\<close>).
\<close>

definition view_coordinate :: "string \<Rightarrow> (row \<Rightarrow> real cell) \<Rightarrow> frame \<Rightarrow> exn + real option" where
  "view_coordinate label field df =
     (if label \<notin> set (columns df) then Inl (KeyError label)
      else if notna_any (map field (rows df)) then Inr (mean (map field (rows df)))
      else Inr (Some 0))"

text \<open>
  The map section: \<open>Inr None\<close> when the day has no rows (no map is drawn, a note is shown
  instead), \<open>Inr (Some (lat0, lon0))\<close> for the centre of the view, \<open>Inl\<close> for an exception,
  which nothing catches here.
\<close>

definition map_view :: "frame \<Rightarrow> exn + (real option \<times> real option) option" where
  "map_view df =
     (if \<not> empty_df df then
        (case view_coordinate ''lat'' lat df of Inl e \<Rightarrow> Inl e | Inr lat0 \<Rightarrow>
        (case view_coordinate ''lon'' lon df of Inl e \<Rightarrow> Inl e | Inr lon0 \<Rightarrow>
           Inr (Some (lat0, lon0))))
      else Inr None)"

section \<open>The specification's day window, and sample data\<close>

text \<open>
  The specification's DayWindow: the half-open interval from the local midnight that
  starts the day to the local midnight that starts the next one.
\<close>

definition in_day_window :: "int \<Rightarrow> int \<Rightarrow> row \<Rightarrow> bool" where
  "in_day_window start next_start r =
     (case dt r of Val t \<Rightarrow> start \<le> t \<and> t < next_start | _ \<Rightarrow> False)"

text \<open>
  A frame whose rows carry a \<open>fix_ok\<close> only when it has that label, as every frame built
  by \<open>DataFrame\<close> does.
\<close>

definition fix_ok_labelled :: "frame \<Rightarrow> bool" where
  "fix_ok_labelled df =
     (''fix_ok'' \<in> set (columns df) \<or> list_all (\<lambda>r. fix_ok r = Absent) (rows df))"

text \<open>
  A log around 2023-11-14 (day 19675), whose local midnight in Mexico City is the epoch
  second 1699941600: a drop at that midnight, one a second before it, one a second before
  the next midnight, one at the next midnight, and one without a timestamp.
\<close>

definition drop_record :: "int cell \<Rightarrow> real cell \<Rightarrow> real cell \<Rightarrow> bool cell \<Rightarrow> row" where
  "drop_record t la lo fx =
     \<lparr>ts = t, lat = la, lon = lo, alt = Val 2240, drop_id = Val 1, speed_mps = Val 10,
      sats = Val 7, fix_ok = fx, dt = Absent\<rparr>"

definition sample_log :: "row list" where
  "sample_log =
     [drop_record (Val 1699941600) (Val 19) (Val (- 99)) (Val True),
      drop_record (Val 1699941599) (Val 19) (Val (- 99)) (Val True),
      drop_record (Val 1700027999) Null Null (Val False),
      drop_record (Val 1700028000) Null Null (Val False),
      drop_record Null Null Null (Val False)]"

definition sample_selected :: frame where
  "sample_selected =
     \<lparr>columns = fallback_columns,
      rows = [(drop_record (Val 1699941600) (Val 19) (Val (- 99)) (Val True))
                \<lparr>dt := Val 1699941600000000000\<rparr>,
              (drop_record (Val 1700027999) Null Null (Val False))
                \<lparr>dt := Val 1700027999000000000\<rparr>]\<rparr>"

definition sample_previous :: frame where
  "sample_previous =
     \<lparr>columns = fallback_columns,
      rows = [(drop_record (Val 1699941599) (Val 19) (Val (- 99)) (Val True))
                \<lparr>dt := Val 1699941599000000000\<rparr>]\<rparr>"

text \<open>
  A drop of the afternoon of 2023-11-14, and two logs that hold it with one more drop: one
  with the timestamp -1, one of the evening before. A third log is the JSON array
  \<^verbatim>\<open>[{}]\<close>, one record without any key.
\<close>

definition in_day_drop :: row where
  "in_day_drop = drop_record (Val 1700000000) (Val 19) (Val (- 99)) (Val True)"

definition negative_log :: "row list" where
  "negative_log = [in_day_drop, drop_record (Val (- 1)) (Val 19) (Val (- 99)) (Val True)]"

definition other_day_log :: "row list" where
  "other_day_log =
     [in_day_drop, drop_record (Val 1699941599) (Val 19) (Val (- 99)) (Val True)]"

definition keyless_record :: row where
  "keyless_record =
     \<lparr>ts = Absent, lat = Absent, lon = Absent, alt = Absent, drop_id = Absent,
      speed_mps = Absent, sats = Absent, fix_ok = Absent, dt = Absent\<rparr>"

definition keyless_log :: "row list" where
  "keyless_log = [keyless_record]"

text \<open>A drop of 2023-11-14 that has no position.\<close>

definition no_fix_log :: "row list" where
  "no_fix_log = [drop_record (Val 1700000000) Null Null (Val False)]"

lemmas eval_defs =
  select_day_def empty_df_def DataFrame_def has_key_def drop_record_def assign_dt_def
  out_of_range_cell_def in_datetime_range_def to_datetime_cell_def tz_localize_def
  mexico_city_cst_def combine_min_def combine_max_def day_mask_def add_column_def
  sample_log_def sample_selected_def sample_previous_def fallback_columns_def negative_log_def no_fix_log_def
  in_day_drop_def other_day_log_def keyless_record_def keyless_log_def

section \<open>Mission control\<close>

text \<open>
  C2: for velocity > 0 and distance > 0 the computed interval is distance / velocity
  (times the velocity it gives the distance back) and is positive; for velocity 10 and
  distance 30 it is 3 seconds.
\<close>

theorem computed_interval_exact_positive:
  "0 < velocity \<Longrightarrow> 0 < distance \<Longrightarrow>
     computed_interval velocity distance = distance / velocity \<and>
     computed_interval velocity distance * velocity = distance \<and>
     0 < computed_interval velocity distance \<and>
     computed_interval 10 30 = 3"
  by (simp add: computed_interval_def)

theorem computed_interval_exact_positive_witness:
  "(0::real) < 10 \<and> (0::real) < 30 \<and> computed_interval 10 30 = 30 / 10 \<and>
   computed_interval 10 30 * 10 = 30 \<and> 0 < computed_interval 10 30 \<and>
   computed_interval 10 30 = 3"
  using computed_interval_exact_positive [of 10 30] by simp





text \<open>
  C9: two stops in a row give two acknowledgments. The handler has no state of its own:
  each call posts to the device and shows what the device answers, so when the device
  acknowledges both requests (a status that is no error, a JSON body), both calls succeed,
  the second as the first.
\<close>

theorem stop_twice_two_acks:
  assumes "device s0 = (Reply code1 (Some ack1), s1)"
    and "device s1 = (Reply code2 (Some ack2), s2)"
    and "\<not> (400 \<le> code1 \<and> code1 < 600)"
    and "\<not> (400 \<le> code2 \<and> code2 < 600)"
  shows "stop_button device s0 = (Success ack1, s1) \<and>
         stop_button device s1 = (Success ack2, s2)"
  using assms
  by (simp add: stop_button_def stop_mission_def response_json_def raise_for_status_def)

theorem stop_twice_two_acks_witness:
  "stop_button acking_device Running = (Success ''stopped'', Idle) \<and>
   stop_button acking_device Idle = (Success ''stopped'', Idle)"
  using stop_twice_two_acks
    [of acking_device Running 200 "''stopped''" Idle 200 "''stopped''" Idle]
  by (simp add: acking_device_def)

section \<open>Selecting a day\<close>

lemma select_day_empty: "empty_df df \<Longrightarrow> select_day zone day df = Inr df"
  by (simp add: select_day_def)

lemma select_day_no_rows: "rows df = [] \<Longrightarrow> select_day zone day df = Inr df"
  by (simp add: select_day_def empty_df_def)

text \<open>What a run of the selection without an exception has done to a frame with rows.\<close>

lemma select_day_Inr:
  assumes "select_day zone day df = Inr d" and "\<not> empty_df df"
  shows "\<exists>day_start day_end.
           tz_localize zone (combine_min day) = Inr day_start \<and>
           tz_localize zone (combine_max day) = Inr day_end \<and>
           ''ts'' \<in> set (columns df) \<and>
           \<not> list_ex (\<lambda>r. out_of_range_cell (ts r)) (rows df) \<and>
           d = \<lparr>columns = add_column ''dt'' (columns df),
                rows = filter (day_mask day_start day_end)
                         (map (\<lambda>r. r\<lparr>dt := to_datetime_cell (ts r)\<rparr>) (rows df))\<rparr>"
  using assms
  by (auto simp: select_day_def assign_dt_def split: sum.splits if_splits)

lemma add_column_idem: "add_column c (add_column c cs) = add_column c cs"
  by (simp add: add_column_def)

lemma in_add_column: "x \<in> set (add_column c cs) \<longleftrightarrow> x = c \<or> x \<in> set cs"
  by (auto simp: add_column_def)

lemma assign_dt_rows_idem:
  "map (\<lambda>r. r\<lparr>dt := to_datetime_cell (ts r)\<rparr>)
     (filter P (map (\<lambda>r. r\<lparr>dt := to_datetime_cell (ts r)\<rparr>) rs)) =
   filter P (map (\<lambda>r. r\<lparr>dt := to_datetime_cell (ts r)\<rparr>) rs)"
  by (induction rs) auto

lemma out_of_range_filter:
  "\<not> list_ex (\<lambda>r. out_of_range_cell (ts r)) rs \<Longrightarrow>
   \<not> list_ex (\<lambda>r. out_of_range_cell (ts r))
        (filter P (map (\<lambda>r. r\<lparr>dt := to_datetime_cell (ts r)\<rparr>) rs))"
  by (induction rs) auto

text \<open>
  Timestamps are whole seconds, so the last instant the script admits, 23:59:59.999999,
  bounds the same records as the next midnight does, exclusive.
\<close>

lemma whole_second_upper_bound:
  "(t * 10 ^ 9 \<le> E * 10 ^ 9 - 1000) = (t * 10 ^ 9 < E * (10 ^ 9 :: int))"
  by simp arith

lemma day_mask_half_open:
  assumes "zone (combine_max day) = Some off" "zone (combine_min (day + 1)) = Some off"
    "tz_localize zone (combine_max day) = Inr e"
    "tz_localize zone (combine_min (day + 1)) = Inr n"
  shows "day_mask s e (r\<lparr>dt := to_datetime_cell c\<rparr>) =
         in_day_window s n (r\<lparr>dt := to_datetime_cell c\<rparr>)"
proof (cases c)
  case (Val t)
  have e: "e = ((day + 1) * 86400 - off) * 10 ^ 9 - 1000"
    using assms(1,3) by (simp add: tz_localize_def combine_max_def algebra_simps)
  have n: "n = ((day + 1) * 86400 - off) * 10 ^ 9"
    using assms(2,4) by (simp add: tz_localize_def combine_min_def algebra_simps)
  show ?thesis
    unfolding e n using whole_second_upper_bound [of t "(day + 1) * 86400 - off"]
    by (simp add: day_mask_def in_day_window_def to_datetime_cell_def Val)
qed (simp_all add: day_mask_def in_day_window_def to_datetime_cell_def)

text \<open>
  C1: the day's rows are the records whose local time lies in the half-open interval from
  the local midnight of the day to the local midnight of the next day: a record is in the
  day's set iff start <= its time < end. So a record at local midnight is in that day, and
  one a second earlier is not (it is in the day before). The zone's offset is taken not to
  change in the last microsecond of the day, and the selection not to raise.
\<close>

theorem day_window_half_open:
  assumes sel: "select_day zone day df = Inr d" and ne: "columns df \<noteq> []"
    and st: "tz_localize zone (combine_min day) = Inr start"
    and nx: "tz_localize zone (combine_min (day + 1)) = Inr next_start"
    and same: "zone (combine_max day) = zone (combine_min (day + 1))"
  shows "rows d = filter (in_day_window start next_start)
                    (map (\<lambda>r. r\<lparr>dt := to_datetime_cell (ts r)\<rparr>) (rows df)) \<and>
         (\<forall>r \<in> set (rows df). \<forall>t. ts r = Val t \<longrightarrow>
            (r\<lparr>dt := Val (t * 10 ^ 9)\<rparr> \<in> set (rows d)) =
            (start \<le> t * 10 ^ 9 \<and> t * 10 ^ 9 < next_start))"
proof (cases "rows df = []")
  case True
  with sel have "d = df" by (simp add: select_day_no_rows)
  with True show ?thesis by simp
next
  case False
  with ne have ne': "\<not> empty_df df" by (simp add: empty_df_def)
  from select_day_Inr [OF sel ne'] st obtain e where
    e: "tz_localize zone (combine_max day) = Inr e" and
    d: "d = \<lparr>columns = add_column ''dt'' (columns df),
             rows = filter (day_mask start e)
                      (map (\<lambda>r. r\<lparr>dt := to_datetime_cell (ts r)\<rparr>) (rows df))\<rparr>"
    by auto
  from nx obtain off where off: "zone (combine_min (day + 1)) = Some off"
    by (auto simp: tz_localize_def split: option.splits)
  with same have off': "zone (combine_max day) = Some off" by simp
  have m: "\<And>r c. day_mask start e (r\<lparr>dt := to_datetime_cell c\<rparr>) =
              in_day_window start next_start (r\<lparr>dt := to_datetime_cell c\<rparr>)"
    by (rule day_mask_half_open [OF off' off e nx])
  have 1: "rows d = filter (in_day_window start next_start)
                    (map (\<lambda>r. r\<lparr>dt := to_datetime_cell (ts r)\<rparr>) (rows df))"
    unfolding d by (simp add: m filter_map comp_def)
  have 2: "(r\<lparr>dt := Val (t * 10 ^ 9)\<rparr> \<in> set (rows d)) =
            (start \<le> t * 10 ^ 9 \<and> t * 10 ^ 9 < next_start)"
    if r: "r \<in> set (rows df)" and t: "ts r = Val t" for r t
  proof
    assume "r\<lparr>dt := Val (t * 10 ^ 9)\<rparr> \<in> set (rows d)"
    then have "in_day_window start next_start (r\<lparr>dt := Val (t * 10 ^ 9)\<rparr>)"
      unfolding 1 by simp
    then show "start \<le> t * 10 ^ 9 \<and> t * 10 ^ 9 < next_start"
      by (simp add: in_day_window_def)
  next
    assume w: "start \<le> t * 10 ^ 9 \<and> t * 10 ^ 9 < next_start"
    have c: "to_datetime_cell (ts r) = Val (t * 10 ^ 9)"
      using t by (simp add: to_datetime_cell_def)
    have "r\<lparr>dt := to_datetime_cell (ts r)\<rparr> \<in>
            (\<lambda>r. r\<lparr>dt := to_datetime_cell (ts r)\<rparr>) ` set (rows df)"
      using r by (rule imageI)
    then have "r\<lparr>dt := Val (t * 10 ^ 9)\<rparr> \<in>
            (\<lambda>r. r\<lparr>dt := to_datetime_cell (ts r)\<rparr>) ` set (rows df)"
      by (simp only: c)
    then show "r\<lparr>dt := Val (t * 10 ^ 9)\<rparr> \<in> set (rows d)"
      unfolding 1 using w by (simp add: in_day_window_def)
  qed
  from 1 2 show ?thesis by blast
qed

text \<open>
  On the sample log and 2023-11-14: the drop at local midnight and the drop a second before
  the next midnight are the day's; the drop a second before local midnight is the only one
  of the day before.
\<close>

theorem day_window_half_open_witness:
  "select_day mexico_city_cst 19675 (DataFrame sample_log) = Inr sample_selected \<and>
   select_day mexico_city_cst 19674 (DataFrame sample_log) = Inr sample_previous \<and>
   columns (DataFrame sample_log) \<noteq> [] \<and>
   tz_localize mexico_city_cst (combine_min 19674) = Inr 1699855200000000000 \<and>
   tz_localize mexico_city_cst (combine_min 19675) = Inr 1699941600000000000 \<and>
   tz_localize mexico_city_cst (combine_min 19676) = Inr 1700028000000000000 \<and>
   mexico_city_cst (combine_max 19674) = mexico_city_cst (combine_min 19675) \<and>
   mexico_city_cst (combine_max 19675) = mexico_city_cst (combine_min 19676) \<and>
   rows sample_selected =
     filter (in_day_window 1699941600000000000 1700028000000000000)
       (map (\<lambda>r. r\<lparr>dt := to_datetime_cell (ts r)\<rparr>) (rows (DataFrame sample_log))) \<and>
   rows sample_previous =
     filter (in_day_window 1699855200000000000 1699941600000000000)
       (map (\<lambda>r. r\<lparr>dt := to_datetime_cell (ts r)\<rparr>) (rows (DataFrame sample_log))) \<and>
   (drop_record (Val 1699941600) (Val 19) (Val (- 99)) (Val True))
        \<lparr>dt := Val 1699941600000000000\<rparr> \<in> set (rows sample_selected) \<and>
   (drop_record (Val 1699941599) (Val 19) (Val (- 99)) (Val True))
        \<lparr>dt := Val 1699941599000000000\<rparr> \<notin> set (rows sample_selected) \<and>
   (drop_record (Val 1699941599) (Val 19) (Val (- 99)) (Val True))
        \<lparr>dt := Val 1699941599000000000\<rparr> \<in> set (rows sample_previous)"
proof -
  have h1: "select_day mexico_city_cst 19675 (DataFrame sample_log) = Inr sample_selected"
    by (simp add: eval_defs)
  have g1: "select_day mexico_city_cst 19674 (DataFrame sample_log) = Inr sample_previous"
    by (simp add: eval_defs)
  have h2: "columns (DataFrame sample_log) \<noteq> []"
    by (simp add: eval_defs)
  have g3: "tz_localize mexico_city_cst (combine_min 19674) = Inr 1699855200000000000"
    by (simp add: eval_defs)
  have h3: "tz_localize mexico_city_cst (combine_min 19675) = Inr 1699941600000000000"
    by (simp add: eval_defs)
  have h4: "tz_localize mexico_city_cst (combine_min 19676) = Inr 1700028000000000000"
    by (simp add: eval_defs)
  have g5: "mexico_city_cst (combine_max 19674) = mexico_city_cst (combine_min 19675)"
    by (simp add: eval_defs)
  have h5: "mexico_city_cst (combine_max 19675) = mexico_city_cst (combine_min 19676)"
    by (simp add: eval_defs)
  have g4': "tz_localize mexico_city_cst (combine_min (19674 + 1)) = Inr 1699941600000000000"
    using h3 by simp
  have h4': "tz_localize mexico_city_cst (combine_min (19675 + 1)) = Inr 1700028000000000000"
    using h4 by simp
  have g5': "mexico_city_cst (combine_max 19674) = mexico_city_cst (combine_min (19674 + 1))"
    using g5 by simp
  have h5': "mexico_city_cst (combine_max 19675) = mexico_city_cst (combine_min (19675 + 1))"
    using h5 by simp
  note today = day_window_half_open [OF h1 h2 h3 h4' h5']
  note yesterday = day_window_half_open [OF g1 h2 g3 g4' g5']
  have r1: "drop_record (Val 1699941600) (Val 19) (Val (- 99)) (Val True)
              \<in> set (rows (DataFrame sample_log))"
    by (simp add: DataFrame_def sample_log_def)
  have r2: "drop_record (Val 1699941599) (Val 19) (Val (- 99)) (Val True)
              \<in> set (rows (DataFrame sample_log))"
    by (simp add: DataFrame_def sample_log_def)
  have t1: "ts (drop_record (Val 1699941600) (Val 19) (Val (- 99)) (Val True)) =
              Val 1699941600"
    by (simp add: drop_record_def)
  have t2: "ts (drop_record (Val 1699941599) (Val 19) (Val (- 99)) (Val True)) =
              Val 1699941599"
    by (simp add: drop_record_def)
  from today r1 t1 have m1: "(drop_record (Val 1699941600) (Val 19) (Val (- 99)) (Val True))
        \<lparr>dt := Val 1699941600000000000\<rparr> \<in> set (rows sample_selected)"
    by fastforce
  from today r2 t2 have m2: "(drop_record (Val 1699941599) (Val 19) (Val (- 99)) (Val True))
        \<lparr>dt := Val 1699941599000000000\<rparr> \<notin> set (rows sample_selected)"
    by fastforce
  from yesterday r2 t2 have m3: "(drop_record (Val 1699941599) (Val 19) (Val (- 99)) (Val True))
        \<lparr>dt := Val 1699941599000000000\<rparr> \<in> set (rows sample_previous)"
    by fastforce
  from today yesterday h1 g1 h2 g3 h3 h4 g5 h5 m1 m2 m3 show ?thesis
    by blast
qed

text \<open>
  C7: selecting a day is idempotent: selecting the same day again from an already selected
  frame gives that frame back, rows and columns.
\<close>

theorem select_day_idempotent:
  assumes "select_day zone day df = Inr d"
  shows "select_day zone day d = Inr d"
proof (cases "empty_df df")
  case True
  with assms have "d = df" by (simp add: select_day_empty)
  with True show ?thesis by (simp add: select_day_empty)
next
  case False
  from select_day_Inr [OF assms False] obtain s e where
    s: "tz_localize zone (combine_min day) = Inr s" and
    e: "tz_localize zone (combine_max day) = Inr e" and
    c: "''ts'' \<in> set (columns df)" and
    b: "\<not> list_ex (\<lambda>r. out_of_range_cell (ts r)) (rows df)" and
    d: "d = \<lparr>columns = add_column ''dt'' (columns df),
             rows = filter (day_mask s e)
                      (map (\<lambda>r. r\<lparr>dt := to_datetime_cell (ts r)\<rparr>) (rows df))\<rparr>"
    by blast
  show ?thesis
  proof (cases "empty_df d")
    case True
    then show ?thesis by (simp add: select_day_empty)
  next
    case False
    have a: "assign_dt d = Inr d"
      using c out_of_range_filter [OF b, of "day_mask s e"]
      by (simp add: assign_dt_def d in_add_column add_column_idem assign_dt_rows_idem)
    show ?thesis
      using False by (simp add: select_day_def a s e) (simp add: d)
  qed
qed

theorem select_day_idempotent_witness:
  "select_day mexico_city_cst 19675 (DataFrame sample_log) = Inr sample_selected \<and>
   select_day mexico_city_cst 19675 sample_selected = Inr sample_selected"
proof -
  have h: "select_day mexico_city_cst 19675 (DataFrame sample_log) = Inr sample_selected"
    by (simp add: eval_defs)
  from select_day_idempotent [OF h] h show ?thesis by simp
qed

section \<open>Stats and map of the selected day\<close>

lemma stats_no_rows:
  "rows (df_day v) = [] \<Longrightarrow>
     stats v = \<lparr>rows_selected_day = 0,
                total_fetched_rows = (case df_all v of Some a \<Rightarrow> len a | None \<Rightarrow> 0),
                valid_gps_rows = 0, avg_speed = Dash\<rparr>"
  by (simp add: stats_def len_def empty_df_def)

lemma map_view_no_rows: "rows df = [] \<Longrightarrow> map_view df = Inr None"
  by (simp add: map_view_def empty_df_def)

text \<open>
  C3: an empty record sequence gives zero counts (rows of the day, fetched rows, rows with
  a valid fix), an absent mean speed and no map centre, and nothing raises: no warning is
  reported and the map section returns normally.
\<close>

theorem empty_input_zero_counts_absent_means:
  "daily_view zone day (Inr []) =
     \<lparr>df_day = DataFrame_columns fetched_columns,
      df_all = Some (DataFrame_columns fetched_columns), warning = None\<rparr> \<and>
   stats (daily_view zone day (Inr [])) =
     \<lparr>rows_selected_day = 0, total_fetched_rows = 0, valid_gps_rows = 0, avg_speed = Dash\<rparr> \<and>
   map_view (df_day (daily_view zone day (Inr []))) = Inr None"
proof -
  have v: "daily_view zone day (Inr []) =
     \<lparr>df_day = DataFrame_columns fetched_columns,
      df_all = Some (DataFrame_columns fetched_columns), warning = None\<rparr>"
    by (simp add: daily_view_def select_day_no_rows DataFrame_columns_def Let_def)
  have s: "stats (daily_view zone day (Inr [])) =
     \<lparr>rows_selected_day = 0, total_fetched_rows = 0, valid_gps_rows = 0, avg_speed = Dash\<rparr>"
    by (simp add: v stats_no_rows DataFrame_columns_def len_def)
  have m: "map_view (df_day (daily_view zone day (Inr []))) = Inr None"
    by (simp add: v map_view_no_rows DataFrame_columns_def)
  from v s m show ?thesis by simp
qed

text \<open>
  C10: when the fetch of the daily view raises (no connection, a timeout, an error status,
  a body that is not JSON), the day's frame is the empty frame with the columns ts, lat,
  lon, alt, drop_id, speed_mps, sats, fix_ok, dt, the exception is reported as a warning,
  and the stats are zero counts and an absent mean; the map section returns normally.
\<close>

theorem fetch_failure_fallback:
  assumes "fetch_json device (max previewN 400) = Inl e"
  shows "df_day (daily_page zone day previewN device) =
           \<lparr>columns = [''ts'', ''lat'', ''lon'', ''alt'', ''drop_id'', ''speed_mps'', ''sats'',
                        ''fix_ok'', ''dt''],
            rows = []\<rparr> \<and>
         warning (daily_page zone day previewN device) = Some e \<and>
         stats (daily_page zone day previewN device) =
           \<lparr>rows_selected_day = 0, total_fetched_rows = 0, valid_gps_rows = 0,
            avg_speed = Dash\<rparr> \<and>
         map_view (df_day (daily_page zone day previewN device)) = Inr None"
proof -
  have v: "daily_page zone day previewN device =
     \<lparr>df_day = DataFrame_columns fallback_columns, df_all = None, warning = Some e\<rparr>"
    using assms by (simp add: daily_page_def daily_view_def)
  show ?thesis
    by (simp add: v stats_no_rows map_view_no_rows DataFrame_columns_def fallback_columns_def)
qed

theorem fetch_failure_fallback_witness:
  "fetch_json (\<lambda>n. Reply 500 None) (max 50 400) = Inl (HTTPError 500) \<and>
   warning (daily_page mexico_city_cst 19675 50 (\<lambda>n. Reply 500 None)) = Some (HTTPError 500) \<and>
   stats (daily_page mexico_city_cst 19675 50 (\<lambda>n. Reply 500 None)) =
     \<lparr>rows_selected_day = 0, total_fetched_rows = 0, valid_gps_rows = 0, avg_speed = Dash\<rparr>"
proof -
  have h: "fetch_json (\<lambda>n. Reply 500 None) (max 50 400) = Inl (HTTPError 500)"
    by (simp add: fetch_json_def response_json_def raise_for_status_def)
  from fetch_failure_fallback [OF h, of mexico_city_cst 19675] h show ?thesis by simp
qed

text \<open>The exceptions of the fetch: these replies of the device, and no other.\<close>

lemma fetch_json_raises:
  "fetch_json device n = Inl e \<longleftrightarrow>
     (device n = Unreachable \<and> e = ConnectionError) \<or>
     (device n = TimedOut \<and> e = Timeout) \<or>
     (\<exists>code body. device n = Reply code body \<and> 400 \<le> code \<and> code < 600 \<and>
        e = HTTPError code) \<or>
     (\<exists>code. device n = Reply code None \<and> \<not> (400 \<le> code \<and> code < 600) \<and>
        e = JSONDecodeError)"
  by (auto simp: fetch_json_def response_json_def raise_for_status_def
           split: reply.splits option.splits sum.splits if_splits)

text \<open>
  An exception raised after the fetch (no \<open>ts\<close> key, a timestamp out of range, a local
  time the zone has not) gives the same empty frame and warning; the fetched frame stays
  bound, so the fetched rows are still counted.
\<close>

lemma conversion_failure_fallback:
  assumes "data \<noteq> []" and "select_day zone day (DataFrame data) = Inl e"
  shows "daily_view zone day (Inr data) =
           \<lparr>df_day = DataFrame_columns fallback_columns, df_all = Some (DataFrame data),
            warning = Some e\<rparr>"
  using assms by (simp add: daily_view_def Let_def)

subsection \<open>Rows with a valid fix\<close>

lemma fix_ok_sum_count:
  "fix_ok_sum rs = int (length (filter (\<lambda>r. fix_ok r = Val True) rs))"
proof (induction rs)
  case Nil
  show ?case by (simp add: fix_ok_sum_def)
next
  case (Cons r rs)
  then show ?case
    by (cases "fix_ok r") (auto simp: fix_ok_sum_def split: bool.splits)
qed

lemma has_key_False: "\<not> has_key field data \<Longrightarrow> list_all (\<lambda>r. field r = Absent) data"
  by (induction data) (auto simp: has_key_def)

lemma DataFrame_fix_ok_labelled: "fix_ok_labelled (DataFrame data)"
  using has_key_False [of fix_ok data]
  by (auto simp: fix_ok_labelled_def DataFrame_def)

lemma DataFrame_columns_fix_ok_labelled: "fix_ok_labelled (DataFrame_columns cs)"
  by (simp add: fix_ok_labelled_def DataFrame_columns_def)

lemma select_day_fix_ok_labelled:
  assumes "select_day zone day df = Inr d" and "fix_ok_labelled df"
  shows "fix_ok_labelled d"
proof (cases "empty_df df")
  case True
  with assms show ?thesis by (simp add: select_day_empty)
next
  case False
  from select_day_Inr [OF assms(1) False] obtain s e where
    d: "d = \<lparr>columns = add_column ''dt'' (columns df),
             rows = filter (day_mask s e)
                      (map (\<lambda>r. r\<lparr>dt := to_datetime_cell (ts r)\<rparr>) (rows df))\<rparr>"
    by blast
  show ?thesis
    using assms(2)
    by (auto simp: d fix_ok_labelled_def add_column_def list_all_iff)
qed

lemma daily_view_fix_ok_labelled: "fix_ok_labelled (df_day (daily_view zone day fetched))"
proof (cases fetched)
  case (Inl e)
  then show ?thesis
    by (simp add: daily_view_def DataFrame_columns_fix_ok_labelled)
next
  case (Inr data)
  define a where "a = (if data \<noteq> [] then DataFrame data else DataFrame_columns fetched_columns)"
  have a: "fix_ok_labelled a"
    by (simp add: a_def DataFrame_fix_ok_labelled DataFrame_columns_fix_ok_labelled)
  show ?thesis
  proof (cases "select_day zone day a")
    case (Inl e)
    then show ?thesis
      using Inr by (simp add: daily_view_def a_def Let_def DataFrame_columns_fix_ok_labelled)
  next
    case (Inr d)
    then have "fix_ok_labelled d" using a by (rule select_day_fix_ok_labelled)
    then show ?thesis
      using Inr \<open>fetched = Inr data\<close> by (simp add: daily_view_def a_def Let_def)
  qed
qed

lemma valid_gps_rows_labelled:
  assumes "fix_ok_labelled (df_day v)"
  shows "valid_gps_rows (stats v) =
           int (length (filter (\<lambda>r. fix_ok r = Val True) (rows (df_day v))))"
proof (cases "\<not> empty_df (df_day v) \<and> ''fix_ok'' \<in> set (columns (df_day v))")
  case True
  then show ?thesis by (simp add: stats_def fix_ok_sum_count)
next
  case False
  then have "rows (df_day v) = [] \<or> list_all (\<lambda>r. fix_ok r = Absent) (rows (df_day v))"
    using assms by (auto simp: empty_df_def fix_ok_labelled_def)
  then have "filter (\<lambda>r. fix_ok r = Val True) (rows (df_day v)) = []"
    by (auto simp: list_all_iff filter_empty_conv)
  with False show ?thesis by (auto simp: stats_def)
qed

text \<open>
  C4: whatever was fetched, the number of valid GPS rows is the number of the day's
  records whose fix_ok is true; a record whose fix_ok is false (or missing) is counted
  among the rows of the day and left out of the valid ones only.
\<close>

theorem valid_gps_rows_counts_fix_ok:
  "valid_gps_rows (stats (daily_view zone day fetched)) =
     int (length (filter (\<lambda>r. fix_ok r = Val True)
                    (rows (df_day (daily_view zone day fetched))))) \<and>
   int (rows_selected_day (stats (daily_view zone day fetched))) =
     valid_gps_rows (stats (daily_view zone day fetched)) +
     int (length (filter (\<lambda>r. fix_ok r \<noteq> Val True)
                    (rows (df_day (daily_view zone day fetched)))))"
proof -
  let ?v = "daily_view zone day fetched"
  have c: "valid_gps_rows (stats ?v) =
      int (length (filter (\<lambda>r. fix_ok r = Val True) (rows (df_day ?v))))"
    by (rule valid_gps_rows_labelled) (rule daily_view_fix_ok_labelled)
  have "rows_selected_day (stats ?v) = length (rows (df_day ?v))"
    by (simp add: stats_def len_def)
  also have "\<dots> = length (filter (\<lambda>r. fix_ok r = Val True) (rows (df_day ?v))) +
      length (filter (\<lambda>r. fix_ok r \<noteq> Val True) (rows (df_day ?v)))"
    by (simp add: sum_length_filter_compl)
  finally show ?thesis using c by simp
qed

subsection \<open>The centre of the map\<close>

lemma notna_any_values: "notna_any cs \<longleftrightarrow> notna_values cs \<noteq> []"
  by (induction cs) (auto simp: notna_any_def notna_values_def isna_def split: cell.splits)

lemma view_coordinate_value:
  "label \<in> set (columns df) \<Longrightarrow>
   view_coordinate label field df =
     Inr (Some (if notna_values (map field (rows df)) = [] then 0
                else sum_list (notna_values (map field (rows df))) /
                     real (length (notna_values (map field (rows df))))))"
  by (simp add: view_coordinate_def notna_any_values mean_def Let_def)

text \<open>
  C5 as the specification has it fails: for a day whose only record has no coordinates the
  centre of the map is the pair of numbers (0.0, 0.0), not a value that says "no data".
\<close>

theorem map_view_no_sentinel_counterexample:
  "map_view (df_day (daily_view mexico_city_cst 19675 (Inr no_fix_log))) =
     Inr (Some (Some 0, Some 0))"
  by (simp add: daily_view_def eval_defs map_view_def view_coordinate_def notna_any_def
      isna_def)

text \<open>
  C5, amended: for a day with rows whose frame has the lat and the lon column, the latitude
  and the longitude of the map centre are each the mean over the day's records where the
  coordinate is present and not NaN, and the number 0.0 when no record of the day has it;
  for a day without rows no map centre is computed.
\<close>

theorem map_view_centre_falls_back_to_zero:
  "(rows df \<noteq> [] \<and> ''lat'' \<in> set (columns df) \<and> ''lon'' \<in> set (columns df) \<longrightarrow>
      map_view df =
        Inr (Some
          (Some (if notna_values (map lat (rows df)) = [] then 0
                 else sum_list (notna_values (map lat (rows df))) /
                      real (length (notna_values (map lat (rows df))))),
           Some (if notna_values (map lon (rows df)) = [] then 0
                 else sum_list (notna_values (map lon (rows df))) /
                      real (length (notna_values (map lon (rows df)))))))) \<and>
   (rows df = [] \<longrightarrow> map_view df = Inr None)"
proof (intro conjI impI)
  assume a: "rows df \<noteq> [] \<and> ''lat'' \<in> set (columns df) \<and> ''lon'' \<in> set (columns df)"
  then have "columns df \<noteq> []" by auto
  with a have "\<not> empty_df df" by (simp add: empty_df_def)
  with a show "map_view df =
        Inr (Some
          (Some (if notna_values (map lat (rows df)) = [] then 0
                 else sum_list (notna_values (map lat (rows df))) /
                      real (length (notna_values (map lat (rows df))))),
           Some (if notna_values (map lon (rows df)) = [] then 0
                 else sum_list (notna_values (map lon (rows df))) /
                      real (length (notna_values (map lon (rows df)))))))"
    by (simp add: map_view_def view_coordinate_value)
next
  assume "rows df = []"
  then show "map_view df = Inr None" by (rule map_view_no_rows)
qed

theorem map_view_centre_falls_back_to_zero_witness:
  "rows sample_selected \<noteq> [] \<and> ''lat'' \<in> set (columns sample_selected) \<and>
   ''lon'' \<in> set (columns sample_selected) \<and>
   map_view sample_selected = Inr (Some (Some 19, Some (- 99))) \<and>
   rows \<lparr>columns = fallback_columns, rows = no_fix_log\<rparr> \<noteq> [] \<and>
   map_view \<lparr>columns = fallback_columns, rows = no_fix_log\<rparr> = Inr (Some (Some 0, Some 0)) \<and>
   rows (DataFrame_columns fallback_columns) = [] \<and>
   map_view (DataFrame_columns fallback_columns) = Inr None"
proof -
  have h: "rows sample_selected \<noteq> [] \<and> ''lat'' \<in> set (columns sample_selected) \<and>
      ''lon'' \<in> set (columns sample_selected)"
    by (simp add: eval_defs)
  have g: "rows \<lparr>columns = fallback_columns, rows = no_fix_log\<rparr> \<noteq> [] \<and>
      ''lat'' \<in> set (columns \<lparr>columns = fallback_columns, rows = no_fix_log\<rparr>) \<and>
      ''lon'' \<in> set (columns \<lparr>columns = fallback_columns, rows = no_fix_log\<rparr>)"
    by (simp add: eval_defs)
  have e: "rows (DataFrame_columns fallback_columns) = []"
    by (simp add: DataFrame_columns_def)
  note a = map_view_centre_falls_back_to_zero
    [of sample_selected, THEN conjunct1, rule_format, OF h]
  note b = map_view_centre_falls_back_to_zero
    [of "\<lparr>columns = fallback_columns, rows = no_fix_log\<rparr>", THEN conjunct1, rule_format, OF g]
  note c = map_view_centre_falls_back_to_zero
    [of "DataFrame_columns fallback_columns", THEN conjunct2, rule_format, OF e]
  have a': "map_view sample_selected = Inr (Some (Some 19, Some (- 99)))"
    unfolding a by (simp add: eval_defs notna_values_def)
  have b': "map_view \<lparr>columns = fallback_columns, rows = no_fix_log\<rparr> =
      Inr (Some (Some 0, Some 0))"
    unfolding b by (simp add: eval_defs notna_values_def)
  from h g e a' b' c show ?thesis by blast
qed

subsection \<open>Records without a timestamp, or with a negative one\<close>

lemma day_mask_assigned:
  "day_mask s e (r\<lparr>dt := to_datetime_cell (ts r)\<rparr>) =
     (case ts r of Val t \<Rightarrow> s \<le> t * 10 ^ 9 \<and> t * 10 ^ 9 \<le> e | _ \<Rightarrow> False)"
  by (simp add: day_mask_def to_datetime_cell_def split: cell.splits)

lemma filter_day_mask_assigned:
  "filter (day_mask s e) (map (\<lambda>r. r\<lparr>dt := to_datetime_cell (ts r)\<rparr>) rs) =
   map (\<lambda>r. r\<lparr>dt := to_datetime_cell (ts r)\<rparr>)
     (filter (\<lambda>r. case ts r of Val t \<Rightarrow> s \<le> t * 10 ^ 9 \<and> t * 10 ^ 9 \<le> e | _ \<Rightarrow> False) rs)"
  by (induction rs) (simp_all add: day_mask_assigned)

lemma total_fetched_rows_all:
  "total_fetched_rows (stats (daily_view zone day (Inr data))) = length data"
  by (cases "select_day zone day (if data \<noteq> [] then DataFrame data
                                   else DataFrame_columns fetched_columns)")
     (auto simp: daily_view_def Let_def stats_def len_def DataFrame_def DataFrame_columns_def)

lemma day_rows_selected:
  assumes "warning (daily_view zone day (Inr data)) = None" and "columns (DataFrame data) \<noteq> []"
  shows "\<exists>day_start day_end.
           tz_localize zone (combine_min day) = Inr day_start \<and>
           tz_localize zone (combine_max day) = Inr day_end \<and>
           rows (df_day (daily_view zone day (Inr data))) =
             map (\<lambda>r. r\<lparr>dt := to_datetime_cell (ts r)\<rparr>)
               (filter (\<lambda>r. case ts r of
                              Val t \<Rightarrow> day_start \<le> t * 10 ^ 9 \<and> t * 10 ^ 9 \<le> day_end
                            | _ \<Rightarrow> False) data)"
proof -
  from assms(2) have ne: "data \<noteq> []"
    by (auto simp: DataFrame_def has_key_def)
  with assms(2) have nem: "\<not> empty_df (DataFrame data)"
    by (simp add: empty_df_def DataFrame_def)
  from assms(1) ne obtain d where
    sel: "select_day zone day (DataFrame data) = Inr d" and
    v: "daily_view zone day (Inr data) =
          \<lparr>df_day = d, df_all = Some (DataFrame data), warning = None\<rparr>"
    by (auto simp: daily_view_def Let_def split: sum.splits)
  from select_day_Inr [OF sel nem] obtain s e where
    s: "tz_localize zone (combine_min day) = Inr s" and
    e: "tz_localize zone (combine_max day) = Inr e" and
    d: "d = \<lparr>columns = add_column ''dt'' (columns (DataFrame data)),
             rows = filter (day_mask s e)
                      (map (\<lambda>r. r\<lparr>dt := to_datetime_cell (ts r)\<rparr>) (rows (DataFrame data)))\<rparr>"
    by blast
  have r: "rows (DataFrame data) = data" by (simp add: DataFrame_def)
  have "rows (df_day (daily_view zone day (Inr data))) =
          map (\<lambda>r. r\<lparr>dt := to_datetime_cell (ts r)\<rparr>)
            (filter (\<lambda>r. case ts r of
                           Val t \<Rightarrow> s \<le> t * 10 ^ 9 \<and> t * 10 ^ 9 \<le> e
                         | _ \<Rightarrow> False) data)"
    by (simp add: v d r filter_day_mask_assigned)
  with s e show ?thesis by blast
qed

text \<open>
  Changing one record's timestamp, when the key stays and neither timestamp is out of
  range or within the day, changes nothing that the daily view shows.
\<close>

lemma DataFrame_columns_ts_changed:
  "c1 \<noteq> Absent \<Longrightarrow> c2 \<noteq> Absent \<Longrightarrow>
   columns (DataFrame (xs @ r\<lparr>ts := c1\<rparr> # ys)) = columns (DataFrame (xs @ r\<lparr>ts := c2\<rparr> # ys))"
  by (simp add: DataFrame_def has_key_def)

lemma DataFrame_ts_column:
  "c \<noteq> Absent \<Longrightarrow> ''ts'' \<in> set (columns (DataFrame (xs @ r\<lparr>ts := c\<rparr> # ys)))"
  by (simp add: DataFrame_def has_key_def)

lemma day_mask_dt_only: "day_mask s e (r\<lparr>ts := c, dt := x\<rparr>) = day_mask s e (r\<lparr>dt := x\<rparr>)"
  by (simp add: day_mask_def)

lemma select_day_ts_changed:
  assumes "c1 \<noteq> Absent" "c2 \<noteq> Absent"
    and "\<not> out_of_range_cell c1" "\<not> out_of_range_cell c2"
    and "tz_localize zone (combine_min day) = Inr s"
    and "tz_localize zone (combine_max day) = Inr e"
    and "\<not> day_mask s e (r\<lparr>dt := to_datetime_cell c1\<rparr>)"
    and "\<not> day_mask s e (r\<lparr>dt := to_datetime_cell c2\<rparr>)"
  shows "select_day zone day (DataFrame (xs @ r\<lparr>ts := c1\<rparr> # ys)) =
         select_day zone day (DataFrame (xs @ r\<lparr>ts := c2\<rparr> # ys))"
proof -
  have c: "columns (DataFrame (xs @ r\<lparr>ts := c1\<rparr> # ys)) =
           columns (DataFrame (xs @ r\<lparr>ts := c2\<rparr> # ys))"
    using assms(1,2) by (rule DataFrame_columns_ts_changed)
  have r: "\<And>data. rows (DataFrame data) = data" by (simp add: DataFrame_def)
  have t: "''ts'' \<in> set (columns (DataFrame (xs @ r\<lparr>ts := c2\<rparr> # ys)))"
    using assms(2) by (rule DataFrame_ts_column)
  then have n: "columns (DataFrame (xs @ r\<lparr>ts := c2\<rparr> # ys)) \<noteq> []"
    by auto
  show ?thesis
    using assms(3-8)
    by (simp add: select_day_def empty_df_def assign_dt_def c r t n day_mask_dt_only)
qed

lemma daily_view_ts_changed:
  assumes "c1 \<noteq> Absent" "c2 \<noteq> Absent"
    and "\<not> out_of_range_cell c1" "\<not> out_of_range_cell c2"
    and "tz_localize zone (combine_min day) = Inr s"
    and "tz_localize zone (combine_max day) = Inr e"
    and "\<not> day_mask s e (r\<lparr>dt := to_datetime_cell c1\<rparr>)"
    and "\<not> day_mask s e (r\<lparr>dt := to_datetime_cell c2\<rparr>)"
  shows "df_day (daily_view zone day (Inr (xs @ r\<lparr>ts := c1\<rparr> # ys))) =
           df_day (daily_view zone day (Inr (xs @ r\<lparr>ts := c2\<rparr> # ys))) \<and>
         warning (daily_view zone day (Inr (xs @ r\<lparr>ts := c1\<rparr> # ys))) =
           warning (daily_view zone day (Inr (xs @ r\<lparr>ts := c2\<rparr> # ys))) \<and>
         stats (daily_view zone day (Inr (xs @ r\<lparr>ts := c1\<rparr> # ys))) =
           stats (daily_view zone day (Inr (xs @ r\<lparr>ts := c2\<rparr> # ys)))"
proof -
  let ?v1 = "daily_view zone day (Inr (xs @ r\<lparr>ts := c1\<rparr> # ys))"
  let ?v2 = "daily_view zone day (Inr (xs @ r\<lparr>ts := c2\<rparr> # ys))"
  have sel: "select_day zone day (DataFrame (xs @ r\<lparr>ts := c1\<rparr> # ys)) =
             select_day zone day (DataFrame (xs @ r\<lparr>ts := c2\<rparr> # ys))"
    using assms by (rule select_day_ts_changed)
  have d: "df_day ?v1 = df_day ?v2"
    by (simp add: daily_view_def Let_def sel split: sum.splits)
  have w: "warning ?v1 = warning ?v2"
    by (simp add: daily_view_def Let_def sel split: sum.splits)
  have t: "total_fetched_rows (stats ?v1) = total_fetched_rows (stats ?v2)"
    by (simp add: total_fetched_rows_all)
  have "stats ?v1 = stats ?v2"
    using t by (simp add: stats_def d)
  with d w show ?thesis by blast
qed

text \<open>
  C6 as the specification has it fails, on 2023-11-14. The record of \<^verbatim>\<open>[{}]\<close>, which has
  no timestamp, is not dropped: it is the day's one row, and nothing is reported. A record
  with the timestamp -1 is counted among the fetched rows, and no number of dropped
  records is reported: warning and metrics are what they are when the record is a drop of
  the evening before instead.
\<close>

theorem bad_timestamps_unreported_counterexample:
  "rows (df_day (daily_view mexico_city_cst 19675 (Inr keyless_log))) = [keyless_record] \<and>
   warning (daily_view mexico_city_cst 19675 (Inr keyless_log)) = None \<and>
   stats (daily_view mexico_city_cst 19675 (Inr keyless_log)) =
     \<lparr>rows_selected_day = 1, total_fetched_rows = 1, valid_gps_rows = 0, avg_speed = Dash\<rparr> \<and>
   warning (daily_view mexico_city_cst 19675 (Inr negative_log)) = None \<and>
   stats (daily_view mexico_city_cst 19675 (Inr negative_log)) =
     \<lparr>rows_selected_day = 1, total_fetched_rows = 2, valid_gps_rows = 1,
      avg_speed = Avg (Some 10)\<rparr> \<and>
   warning (daily_view mexico_city_cst 19675 (Inr other_day_log)) = None \<and>
   stats (daily_view mexico_city_cst 19675 (Inr other_day_log)) =
     \<lparr>rows_selected_day = 1, total_fetched_rows = 2, valid_gps_rows = 1,
      avg_speed = Avg (Some 10)\<rparr> \<and>
   df_day (daily_view mexico_city_cst 19675 (Inr negative_log)) =
     df_day (daily_view mexico_city_cst 19675 (Inr other_day_log))"
  by (simp add: daily_view_def Let_def eval_defs stats_def len_def fix_ok_sum_def mean_def
      notna_values_def)

text \<open>
  C6, amended: timestamps are not validated and no number of dropped records is reported.
  The fetched rows count every fetched record, whatever its timestamp. When the daily view
  raises nothing and some fetched record has some key, the day's rows are exactly the
  fetched records that have a timestamp with day_start <= timestamp <= day_end, with no
  test of its sign, so a record without a timestamp is then not among them. And where the
  zone gives the day its bounds day_start and day_end, replacing one record's timestamp by
  another (the key present in both, neither out of the datetime range, neither within the
  day: a negative one and one of another day, say) changes neither the day's frame nor the
  warning nor any metric.
\<close>

theorem timestamps_not_validated:
  "total_fetched_rows (stats (daily_view zone day (Inr data))) = length data \<and>
   (warning (daily_view zone day (Inr data)) = None \<and> columns (DataFrame data) \<noteq> [] \<longrightarrow>
      (\<exists>day_start day_end.
         tz_localize zone (combine_min day) = Inr day_start \<and>
         tz_localize zone (combine_max day) = Inr day_end \<and>
         rows (df_day (daily_view zone day (Inr data))) =
           map (\<lambda>r. r\<lparr>dt := to_datetime_cell (ts r)\<rparr>)
             (filter (\<lambda>r. case ts r of
                            Val t \<Rightarrow> day_start \<le> t * 10 ^ 9 \<and> t * 10 ^ 9 \<le> day_end
                          | _ \<Rightarrow> False) data))) \<and>
   (c1 \<noteq> Absent \<and> c2 \<noteq> Absent \<and> \<not> out_of_range_cell c1 \<and> \<not> out_of_range_cell c2 \<and>
    tz_localize zone (combine_min day) = Inr s \<and> tz_localize zone (combine_max day) = Inr e \<and>
    \<not> day_mask s e (r\<lparr>dt := to_datetime_cell c1\<rparr>) \<and>
    \<not> day_mask s e (r\<lparr>dt := to_datetime_cell c2\<rparr>) \<longrightarrow>
      df_day (daily_view zone day (Inr (xs @ r\<lparr>ts := c1\<rparr> # ys))) =
        df_day (daily_view zone day (Inr (xs @ r\<lparr>ts := c2\<rparr> # ys))) \<and>
      warning (daily_view zone day (Inr (xs @ r\<lparr>ts := c1\<rparr> # ys))) =
        warning (daily_view zone day (Inr (xs @ r\<lparr>ts := c2\<rparr> # ys))) \<and>
      stats (daily_view zone day (Inr (xs @ r\<lparr>ts := c1\<rparr> # ys))) =
        stats (daily_view zone day (Inr (xs @ r\<lparr>ts := c2\<rparr> # ys))))"
  using total_fetched_rows_all [of zone day data] day_rows_selected [of zone day data]
    daily_view_ts_changed [of c1 c2 zone day s e r xs ys]
  by blast

theorem timestamps_not_validated_witness:
  "total_fetched_rows (stats (daily_view mexico_city_cst 19675 (Inr negative_log))) = 2 \<and>
   warning (daily_view mexico_city_cst 19675 (Inr negative_log)) = None \<and>
   columns (DataFrame negative_log) \<noteq> [] \<and>
   map ts (rows (df_day (daily_view mexico_city_cst 19675 (Inr negative_log)))) =
     [Val 1700000000] \<and>
   tz_localize mexico_city_cst (combine_min 19675) = Inr 1699941600000000000 \<and>
   tz_localize mexico_city_cst (combine_max 19675) = Inr 1700027999999999000 \<and>
   \<not> day_mask 1699941600000000000 1700027999999999000
       (in_day_drop\<lparr>dt := to_datetime_cell (Val (- 1))\<rparr>) \<and>
   \<not> day_mask 1699941600000000000 1700027999999999000
       (in_day_drop\<lparr>dt := to_datetime_cell (Val 1699941599)\<rparr>) \<and>
   stats (daily_view mexico_city_cst 19675
            (Inr ([in_day_drop] @ in_day_drop\<lparr>ts := Val (- 1)\<rparr> # []))) =
     stats (daily_view mexico_city_cst 19675
            (Inr ([in_day_drop] @ in_day_drop\<lparr>ts := Val 1699941599\<rparr> # [])))"
proof -
  note t = timestamps_not_validated
    [of mexico_city_cst 19675 negative_log "Val (- 1)" "Val 1699941599"
        1699941600000000000 1700027999999999000 in_day_drop "[in_day_drop]" "[]"]
  have a: "total_fetched_rows (stats (daily_view mexico_city_cst 19675 (Inr negative_log))) = 2"
    using t [THEN conjunct1] by (simp add: negative_log_def)
  have h1: "warning (daily_view mexico_city_cst 19675 (Inr negative_log)) = None"
    by (simp add: daily_view_def Let_def eval_defs)
  have h2: "columns (DataFrame negative_log) \<noteq> []"
    by (simp add: eval_defs)
  from t [THEN conjunct2, THEN conjunct1, rule_format, OF conjI, OF h1 h2] obtain s e where
    s: "tz_localize mexico_city_cst (combine_min 19675) = Inr s" and
    e: "tz_localize mexico_city_cst (combine_max 19675) = Inr e" and
    r: "rows (df_day (daily_view mexico_city_cst 19675 (Inr negative_log))) =
           map (\<lambda>r. r\<lparr>dt := to_datetime_cell (ts r)\<rparr>)
             (filter (\<lambda>r. case ts r of
                            Val t \<Rightarrow> s \<le> t * 10 ^ 9 \<and> t * 10 ^ 9 \<le> e
                          | _ \<Rightarrow> False) negative_log)"
    by blast
  from s have s': "s = 1699941600000000000" by (simp add: eval_defs)
  from e have e': "e = 1700027999999999000" by (simp add: eval_defs)
  have b: "map ts (rows (df_day (daily_view mexico_city_cst 19675 (Inr negative_log)))) =
     [Val 1700000000]"
    unfolding r s' e' by (simp add: negative_log_def in_day_drop_def drop_record_def)
  have g: "Val (- 1) \<noteq> (Absent :: int cell) \<and> Val 1699941599 \<noteq> (Absent :: int cell) \<and>
      \<not> out_of_range_cell (Val (- 1)) \<and> \<not> out_of_range_cell (Val 1699941599) \<and>
      tz_localize mexico_city_cst (combine_min 19675) = Inr 1699941600000000000 \<and>
      tz_localize mexico_city_cst (combine_max 19675) = Inr 1700027999999999000 \<and>
      \<not> day_mask 1699941600000000000 1700027999999999000
          (in_day_drop\<lparr>dt := to_datetime_cell (Val (- 1))\<rparr>) \<and>
      \<not> day_mask 1699941600000000000 1700027999999999000
          (in_day_drop\<lparr>dt := to_datetime_cell (Val 1699941599)\<rparr>)"
    by (simp add: eval_defs)
  note c = t [THEN conjunct2, THEN conjunct2, rule_format, OF g]
  from a h1 h2 b g c show ?thesis by blast
qed

end
